theory Spec2Isabelle
  imports Complex_Main
begin

section \<open>Scaled dot-product attention: the notebook's computations\<close>

text \<open>
  The source is the notebook \<^verbatim>\<open>Notebooks/00_scaled_dot_product.ipynb\<close>. Its first half is
  a function \<^verbatim>\<open>dot_prod\<close> and a sequence of exploratory cells that work on literal numpy
  arrays; its second half is the Keras layer \<^verbatim>\<open>ScaledDotProductSA\<close>, which works on
  TensorFlow tensors. The two are kept apart: a numpy array has an attribute \<^verbatim>\<open>T\<close>, a tensor
  has not.

  Numbers are modelled as real numbers: rounding and overflow of floating point are outside
  the model. What floating point adds to the reals and the code can reach by a division by
  zero or a square root of a negative number (NaN, \<open>\<plusminus>Inf\<close>) is kept apart from the reals,
  since in HOL \<open>x / 0 = 0\<close> and \<open>sqrt\<close> is total.
\<close>

subsection \<open>Two-dimensional arrays\<close>

text \<open>
  An array carries its shape, as a numpy array or a tensor does (a \<open>0 \<times> m\<close> array has no
  row to read \<open>m\<close> from).
  \<^item> \<open>Arr n m rs\<close>: \<open>n\<close> rows of \<open>m\<close> real entries each;
  \<^item> \<open>NonFinite n m\<close>: an array of shape \<open>(n, m)\<close>, with \<open>n, m \<ge> 1\<close>, none of whose entries
    is a finite number (each is NaN, \<open>+Inf\<close> or \<open>-Inf\<close>). Which of the three an entry is
    depends on signed zeros and is not tracked.

  The errors: \<open>ShapeMismatch\<close> and \<open>EmptyReduction\<close> are the \<^verbatim>\<open>ValueError\<close>s of a product
  of mismatching shapes and of a maximum over an empty axis; \<open>AttributeError\<close> and
  \<open>InvalidArgumentError\<close> are the exceptions of these names.
\<close>

datatype error = ShapeMismatch | EmptyReduction | AttributeError | InvalidArgumentError

datatype ndarray = Arr nat nat "real list list" | NonFinite nat nat

fun shape :: "ndarray \<Rightarrow> nat \<times> nat" where
  "shape (Arr n m rs) = (n, m)"
| "shape (NonFinite n m) = (n, m)"

fun rows :: "ndarray \<Rightarrow> real list list" where
  "rows (Arr n m rs) = rs"
| "rows (NonFinite n m) = []"

definition has_shape :: "ndarray \<Rightarrow> nat \<Rightarrow> nat \<Rightarrow> bool" where
  \<comment> \<open>a well-formed array of finite entries of the given shape\<close>
  "has_shape A n m =
     (case A of
        Arr n' m' rs \<Rightarrow> n' = n \<and> m' = m \<and> length rs = n \<and> list_all (\<lambda>r. length r = m) rs
      | NonFinite n' m' \<Rightarrow> False)"

definition non_finite :: "nat \<Rightarrow> nat \<Rightarrow> ndarray" where
  \<comment> \<open>the array of a shape whose every entry, if it has any, is not finite\<close>
  "non_finite n m = (if n = 0 \<or> m = 0 then Arr n m (replicate n []) else NonFinite n m)"

definition cols :: "nat \<Rightarrow> real list list \<Rightarrow> real list list" where
  \<comment> \<open>the \<open>m\<close> columns of a list of rows\<close>
  "cols m rs = map (\<lambda>j. map (\<lambda>r. r ! j) rs) [0..<m]"

fun T :: "ndarray \<Rightarrow> ndarray" where
  \<comment> \<open>\<^verbatim>\<open>K.T\<close>\<close>
  "T (Arr n m rs) = Arr m n (cols m rs)"
| "T (NonFinite n m) = NonFinite m n"

definition matmul :: "ndarray \<Rightarrow> ndarray \<Rightarrow> error + ndarray" where
  \<comment> \<open>\<^verbatim>\<open>A @ B\<close> on two-dimensional arrays: the inner dimensions must agree, or the library
      raises. A sum of products one factor of which is never finite is not finite.\<close>
  "matmul A B =
     (case (shape A, shape B) of
        ((n, k), (k', m)) \<Rightarrow>
          if k \<noteq> k' then Inl ShapeMismatch
          else Inr (case (A, B) of
                      (Arr _ _ a, Arr _ _ b) \<Rightarrow>
                        Arr n m (map (\<lambda>r. map (\<lambda>c. sum_list (map2 (*) r c)) (cols m b)) a)
                    | _ \<Rightarrow> non_finite n m))"

definition row_vector :: "real list \<Rightarrow> ndarray" where
  \<comment> \<open>\<^verbatim>\<open>q_i[None,:]\<close>: a vector as a one-row array\<close>
  "row_vector v = Arr 1 (length v) [v]"

subsection \<open>The notebook's dot product\<close>

definition dot_prod :: "real list \<Rightarrow> real list \<Rightarrow> error + real" where
  \<comment> \<open>\<^verbatim>\<open>def dot_prod(v1, v2): return np.sum(v1*v2)\<close> on one-dimensional arrays. The
      elementwise product broadcasts a one-element array and raises on any other pair of
      unequal lengths.\<close>
  "dot_prod v1 v2 =
     (if length v1 = length v2 then Inr (sum_list (map2 (*) v1 v2))
      else if length v1 = 1 then Inr (sum_list (map (\<lambda>y. hd v1 * y) v2))
      else if length v2 = 1 then Inr (sum_list (map (\<lambda>x. x * hd v2) v1))
      else Inl ShapeMismatch)"

subsection \<open>Scaling and normalisation in the exploratory cells\<close>

definition div_sqrt :: "ndarray \<Rightarrow> real \<Rightarrow> ndarray" where
  \<comment> \<open>\<^verbatim>\<open>A / np.sqrt(6)\<close>, for any number in the place of 6. The square root of a negative
      number is NaN and that of 0 is 0; dividing by either raises nothing and leaves no finite
      entry.\<close>
  "div_sqrt A d_k =
     (if 0 < d_k then
        (case A of
           Arr n m rs \<Rightarrow> Arr n m (map (map (\<lambda>x. x / sqrt d_k)) rs)
         | NonFinite n m \<Rightarrow> NonFinite n m)
      else non_finite (fst (shape A)) (snd (shape A)))"

definition max_normalize :: "ndarray \<Rightarrow> error + ndarray list" where
  \<comment> \<open>The exploratory cell \<^verbatim>\<open>A = A / A.max(axis=1)[:,None]\<close>. The maximum over an axis of
      size 0 raises. A row whose maximum is 0 is divided by zero and keeps no finite entry,
      while its neighbours do, so the result is given row by row, each a one-row array.\<close>
  "max_normalize A =
     (case A of
        Arr n m rs \<Rightarrow>
          if m = 0 then Inl EmptyReduction
          else Inr (map (\<lambda>r. if Max (set r) = 0 then NonFinite 1 m
                             else Arr 1 m [map (\<lambda>x. x / Max (set r)) r]) rs)
      | NonFinite n m \<Rightarrow> Inr (replicate n (NonFinite 1 m)))"

subsection \<open>Tensors\<close>

text \<open>
  The layer's \<open>Q\<close>, \<open>K\<close>, \<open>V\<close> are outputs of \<^verbatim>\<open>layers.Dense\<close>: TensorFlow tensors. The
  notebook imports \<^verbatim>\<open>tensorflow\<close> and \<^verbatim>\<open>tensorflow.keras.layers\<close> and nothing else for
  the layer, and never switches on TensorFlow's numpy behaviour. A tensor holds the values of
  an array and is a type of its own.
\<close>

datatype tensor = Tensor ndarray

fun tensor_T :: "tensor \<Rightarrow> error + tensor" where
  \<comment> \<open>\<^verbatim>\<open>K.T\<close> on a tensor: without the numpy behaviour a tensor has no attribute \<^verbatim>\<open>T\<close>, and
      looking it up raises \<^verbatim>\<open>AttributeError\<close>, whatever the tensor holds.\<close>
  "tensor_T (Tensor a) = Inl AttributeError"

fun tensor_matmul :: "tensor \<Rightarrow> tensor \<Rightarrow> error + tensor" where
  \<comment> \<open>\<^verbatim>\<open>A @ B\<close> on tensors of rank 2: the matrix product, raising on mismatching inner
      dimensions\<close>
  "tensor_matmul (Tensor a) (Tensor b) =
     (case matmul a b of Inl e \<Rightarrow> Inl e | Inr c \<Rightarrow> Inr (Tensor c))"

definition tf_math_sqrt :: "int \<Rightarrow> error + real" where
  \<comment> \<open>\<^verbatim>\<open>tf.math.sqrt(self.dk)\<close>, where \<^verbatim>\<open>self.dk\<close> is the Python int the constructor was
      given (the same value is the number of units of \<^verbatim>\<open>Dense(self.dk)\<close>): TensorFlow makes
      an int32 tensor of it, a type its square root does not take, and raises.\<close>
  "tf_math_sqrt d = Inl InvalidArgumentError"

fun tensor_div :: "tensor \<Rightarrow> real \<Rightarrow> tensor" where
  \<comment> \<open>\<^verbatim>\<open>A / s\<close> for a tensor and a finite scalar; a division by 0 raises nothing and leaves
      no finite entry\<close>
  "tensor_div (Tensor a) s =
     Tensor (if s \<noteq> 0 then
               (case a of
                  Arr n m rs \<Rightarrow> Arr n m (map (map (\<lambda>x. x / s)) rs)
                | NonFinite n m \<Rightarrow> NonFinite n m)
             else non_finite (fst (shape a)) (snd (shape a)))"

definition softmax_row :: "real list \<Rightarrow> real list" where
  "softmax_row r = map (\<lambda>x. exp x / sum_list (map exp r)) r"

fun softmax :: "tensor \<Rightarrow> tensor" where
  \<comment> \<open>\<^verbatim>\<open>tf.nn.softmax(A, axis=-1)\<close>, TensorFlow's function, by its documented meaning:
      \<open>A[i][j] = exp(S'[i][j]) / \<Sum>j'. exp(S'[i][j'])\<close> along the last axis. TensorFlow
      evaluates it on the scores shifted by the row's maximum, which gives NaN throughout a row
      that has no finite entry.\<close>
  "softmax (Tensor (Arr n m rs)) = Tensor (Arr n m (map softmax_row rs))"
| "softmax (Tensor (NonFinite n m)) = Tensor (NonFinite n m)"

subsection \<open>The layer\<close>

text \<open>
  \<^verbatim>\<open>layers.Dense(units)\<close> is Keras' layer. Once built it owns a kernel of shape
  \<open>(d_model, units)\<close> and a bias of length \<open>units\<close>; how they are created and trained is
  Keras' business, so they are given.
\<close>

record dense =
  kernel :: ndarray
  bias :: "real list"

definition bias_add :: "ndarray \<Rightarrow> real list \<Rightarrow> error + ndarray" where
  "bias_add M b =
     (if length b \<noteq> snd (shape M) then Inl ShapeMismatch
      else Inr (case M of
                  Arr n m rs \<Rightarrow> Arr n m (map (\<lambda>r. map2 (+) r b) rs)
                | NonFinite n m \<Rightarrow> NonFinite n m))"

definition dense_call :: "dense \<Rightarrow> ndarray \<Rightarrow> error + tensor" where
  \<comment> \<open>applying a built \<^verbatim>\<open>Dense\<close> layer, with the defaults the source leaves in place
      (linear activation, a bias): the tensor of \<open>X\<cdot>W + b\<close>, the bias added to every row\<close>
  "dense_call d X =
     (case matmul X (kernel d) of
        Inl e \<Rightarrow> Inl e
      | Inr M \<Rightarrow> (case bias_add M (bias d) of Inl e \<Rightarrow> Inl e | Inr Y \<Rightarrow> Inr (Tensor Y)))"

text \<open>
  What \<^verbatim>\<open>call\<close> returns: \<^verbatim>\<open>output\<close>, or the pair \<^verbatim>\<open>(A, output)\<close>.
\<close>

datatype result = Output tensor | AttnOutput tensor tensor

record layer =
  dk :: int
  dv :: int
  return_attn :: bool
  layer_Q :: dense
  layer_K :: dense
  layer_V :: dense

definition call :: "layer \<Rightarrow> ndarray \<Rightarrow> error + result" where
  \<comment> \<open>\<^verbatim>\<open>ScaledDotProductSA.call\<close>, statement by statement:
      \<^verbatim>\<open>Q, K, V = self.Q(inputs), self.K(inputs), self.V(inputs)\<close>;
      \<^verbatim>\<open>A = Q @ K.T\<close>, in which \<^verbatim>\<open>K.T\<close> is evaluated before the product;
      \<^verbatim>\<open>A = tf.nn.softmax(A/tf.math.sqrt(self.dk), axis=-1)\<close>;
      \<^verbatim>\<open>output = A @ V\<close>;
      \<^verbatim>\<open>if self.return_attn: return A, output\<close>, \<^verbatim>\<open>else: return output\<close>.\<close>
  "call L inputs =
     (case dense_call (layer_Q L) inputs of
        Inl e \<Rightarrow> Inl e
      | Inr Q \<Rightarrow>
     (case dense_call (layer_K L) inputs of
        Inl e \<Rightarrow> Inl e
      | Inr K \<Rightarrow>
     (case dense_call (layer_V L) inputs of
        Inl e \<Rightarrow> Inl e
      | Inr V \<Rightarrow>
     (case tensor_T K of
        Inl e \<Rightarrow> Inl e
      | Inr Kt \<Rightarrow>
     (case tensor_matmul Q Kt of
        Inl e \<Rightarrow> Inl e
      | Inr A \<Rightarrow>
     (case tf_math_sqrt (dk L) of
        Inl e \<Rightarrow> Inl e
      | Inr s \<Rightarrow>
     (let A' = softmax (tensor_div A s) in
      case tensor_matmul A' V of
        Inl e \<Rightarrow> Inl e
      | Inr out \<Rightarrow> Inr (if return_attn L then AttnOutput A' out else Output out))))))))"

definition layer_built :: "nat \<Rightarrow> layer \<Rightarrow> bool" where
  \<comment> \<open>the state \<^verbatim>\<open>build\<close> and Keras leave the layer in after the first input of width
      \<open>d_model\<close>: \<^verbatim>\<open>Dense(self.dk)\<close>, \<^verbatim>\<open>Dense(self.dk)\<close>, \<^verbatim>\<open>Dense(self.dv)\<close>, each with its
      kernel and bias. The units are positive: what Keras does with others, it does in
      \<^verbatim>\<open>build\<close>, before \<^verbatim>\<open>call\<close> runs.\<close>
  "layer_built d_model L =
     (0 < dk L \<and> 0 < dv L \<and>
      has_shape (kernel (layer_Q L)) d_model (nat (dk L)) \<and>
      length (bias (layer_Q L)) = nat (dk L) \<and>
      has_shape (kernel (layer_K L)) d_model (nat (dk L)) \<and>
      length (bias (layer_K L)) = nat (dk L) \<and>
      has_shape (kernel (layer_V L)) d_model (nat (dv L)) \<and>
      length (bias (layer_V L)) = nat (dv L))"

subsection \<open>The literal arrays of the exploratory cells\<close>

definition q_i :: "real list" where
  \<comment> \<open>\<^verbatim>\<open>q_i = np.linspace(1,6, num=6)\<close>\<close>
  "q_i = [1, 2, 3, 4, 5, 6]"

definition k_1 :: "real list" where
  "k_1 = [1, 0, -1, 2, 7, 4]"

definition k_2 :: "real list" where
  "k_2 = [1, 2, 3, 4, 7, 6]"

definition K_keys :: ndarray where
  \<comment> \<open>\<^verbatim>\<open>K = np.concatenate([k_1[None,:], k_2[None,:]], axis=0)\<close>\<close>
  "K_keys = Arr 2 6 [k_1, k_2]"

definition Q_one :: ndarray where
  \<comment> \<open>the one-query array \<^verbatim>\<open>q_i[None,:]\<close>, the \<open>Q\<close> of the literal scenario of section 8\<close>
  "Q_one = row_vector q_i"


definition X_example :: ndarray where
  \<comment> \<open>an input sequence of three tokens of width 2\<close>
  "X_example = Arr 3 2 [[1, 0], [0, 1], [1, 1]]"

definition layer_example :: layer where
  \<comment> \<open>a built layer \<^verbatim>\<open>ScaledDotProductSA(dk=1, dv=2, return_attn=True)\<close> for inputs of
      width 2, with some value of the trainable parameters\<close>
  "layer_example =
     \<lparr>dk = 1, dv = 2, return_attn = True,
      layer_Q = \<lparr>kernel = Arr 2 1 [[1], [0]], bias = [0]\<rparr>,
      layer_K = \<lparr>kernel = Arr 2 1 [[0], [1]], bias = [1]\<rparr>,
      layer_V = \<lparr>kernel = Arr 2 2 [[1, 0], [0, 1]], bias = [0, 0]\<rparr>\<rparr>"

section \<open>Properties of the array operations\<close>

lemma has_shapeD:
  assumes "has_shape A n m"
  shows "\<exists>rs. A = Arr n m rs \<and> length rs = n \<and> (\<forall>r\<in>set rs. length r = m)"
  using assms by (cases A) (auto simp: has_shape_def list_all_iff)

lemma has_shapeI:
  assumes "length rs = n" and "\<And>r. r \<in> set rs \<Longrightarrow> length r = m"
  shows "has_shape (Arr n m rs) n m"
  using assms by (simp add: has_shape_def list_all_iff)

lemma length_cols: "length (cols m rs) = m"
  by (simp add: cols_def)

lemma nth_cols: "j < m \<Longrightarrow> cols m rs ! j = map (\<lambda>r. r ! j) rs"
  by (simp add: cols_def)

lemma sum_list_map2_nth:
  fixes xs ys :: "real list"
  assumes "length xs = length ys"
  shows "sum_list (map2 (*) xs ys) = (\<Sum>t<length xs. xs ! t * ys ! t)"
proof -
  have "sum_list (map2 (*) xs ys) = (\<Sum>t = 0..<length (map2 (*) xs ys). map2 (*) xs ys ! t)"
    by (rule sum_list_sum_nth)
  also have "\<dots> = (\<Sum>t = 0..<length xs. xs ! t * ys ! t)"
    using assms by (intro sum.cong) auto
  finally show ?thesis by (simp add: atLeast0LessThan)
qed

lemma has_shape_T:
  assumes "has_shape K n d"
  shows "has_shape (T K) d n"
proof -
  from has_shapeD [OF assms] obtain rs where K: "K = Arr n d rs" and n: "length rs = n"
    by blast
  have "length r = n" if "r \<in> set (cols d rs)" for r
    using that n by (auto simp: cols_def)
  then show ?thesis
    unfolding K T.simps by (intro has_shapeI) (simp_all add: length_cols)
qed

lemma rows_T:
  assumes "has_shape K n d" and "j < n" and "t < d"
  shows "rows (T K) ! t ! j = rows K ! j ! t"
proof -
  from has_shapeD [OF assms(1)] obtain rs where K: "K = Arr n d rs" and n: "length rs = n"
    by blast
  show ?thesis
    using assms(2,3) n by (simp add: K nth_cols)
qed

lemma matmul_Arr:
  "matmul (Arr n k a) (Arr k m b) =
     Inr (Arr n m (map (\<lambda>r. map (\<lambda>c. sum_list (map2 (*) r c)) (cols m b)) a))"
  by (simp add: matmul_def)

lemma matmul_finite:
  assumes A: "has_shape A n k" and B: "has_shape B k m"
  shows "\<exists>c. matmul A B = Inr (Arr n m c) \<and> has_shape (Arr n m c) n m \<and>
             (\<forall>i<n. \<forall>j<m. c ! i ! j = (\<Sum>t<k. rows A ! i ! t * rows B ! t ! j))"
proof -
  from has_shapeD [OF A] obtain a where a: "A = Arr n k a" "length a = n"
    and a_rows: "\<forall>r\<in>set a. length r = k"
    by blast
  from has_shapeD [OF B] obtain b where b: "B = Arr k m b" "length b = k"
    by blast
  define c where "c = map (\<lambda>r. map (\<lambda>c. sum_list (map2 (*) r c)) (cols m b)) a"
  have eq: "matmul A B = Inr (Arr n m c)"
    by (simp add: a b c_def matmul_Arr)
  have shp: "has_shape (Arr n m c) n m"
    by (rule has_shapeI) (auto simp: c_def a length_cols)
  have "c ! i ! j = (\<Sum>t<k. rows A ! i ! t * rows B ! t ! j)" if i: "i < n" and j: "j < m" for i j
  proof -
    have len: "length (a ! i) = k"
      using a_rows i a(2) by simp
    have "c ! i ! j = sum_list (map2 (*) (a ! i) (map (\<lambda>r. r ! j) b))"
      using i j a(2) by (simp add: c_def length_cols nth_cols)
    also have "\<dots> = (\<Sum>t<length (a ! i). a ! i ! t * map (\<lambda>r. r ! j) b ! t)"
      by (rule sum_list_map2_nth) (simp add: len b(2))
    also have "\<dots> = (\<Sum>t<k. a ! i ! t * b ! t ! j)"
      unfolding len by (rule sum.cong) (simp_all add: b(2))
    finally show ?thesis
      by (simp add: a(1) b(1))
  qed
  with eq shp show ?thesis
    by blast
qed

lemma dot_prod_same_length:
  assumes "length v1 = length v2"
  shows "dot_prod v1 v2 = Inr (\<Sum>t<length v1. v1 ! t * v2 ! t)"
  using assms by (simp add: dot_prod_def sum_list_map2_nth)






lemma dense_call_finite:
  assumes X: "has_shape X n d_model" and W: "has_shape (kernel P) d_model u"
    and b: "length (bias P) = u"
  shows "\<exists>M. dense_call P X = Inr (Tensor M) \<and> has_shape M n u \<and>
             (\<forall>i<n. \<forall>j<u.
                rows M ! i ! j =
                  (\<Sum>t<d_model. rows X ! i ! t * rows (kernel P) ! t ! j) + bias P ! j)"
proof -
  from matmul_finite [OF X W]
  obtain c where c: "matmul X (kernel P) = Inr (Arr n u c)"
    and shp: "has_shape (Arr n u c) n u"
    and ent: "\<forall>i<n. \<forall>j<u. c ! i ! j = (\<Sum>t<d_model. rows X ! i ! t * rows (kernel P) ! t ! j)"
    by blast
  from has_shapeD [OF shp] have len: "length c = n" and row_len: "\<forall>r\<in>set c. length r = u"
    by auto
  define M where "M = Arr n u (map (\<lambda>r. map2 (+) r (bias P)) c)"
  have call: "dense_call P X = Inr (Tensor M)"
    by (simp add: dense_call_def c bias_add_def b M_def)
  have M_shp: "has_shape M n u"
    unfolding M_def using len row_len b by (intro has_shapeI) auto
  have "rows M ! i ! j = (\<Sum>t<d_model. rows X ! i ! t * rows (kernel P) ! t ! j) + bias P ! j"
    if i: "i < n" and j: "j < u" for i j
  proof -
    have "length (c ! i) = u"
      using row_len len i by simp
    then have "rows M ! i ! j = c ! i ! j + bias P ! j"
      using i j len b by (simp add: M_def)
    with ent i j show ?thesis
      by simp
  qed
  with call M_shp show ?thesis
    by blast
qed

text \<open>
  The layer's \<^verbatim>\<open>call\<close> returns on no input: when the three projections succeed, the
  attribute lookup \<^verbatim>\<open>K.T\<close> raises.
\<close>

lemma call_never_returns: "call L X \<noteq> Inr r"
proof -
  have "tensor_T K = Inl AttributeError" for K
    by (cases K) simp
  then show ?thesis
    by (simp add: call_def split: sum.splits)
qed

lemma call_raises:
  assumes "has_shape X n d_model" and "layer_built d_model L"
  shows "call L X = Inl AttributeError"
proof -
  from assms(2) have built:
    "has_shape (kernel (layer_Q L)) d_model (nat (dk L))" "length (bias (layer_Q L)) = nat (dk L)"
    "has_shape (kernel (layer_K L)) d_model (nat (dk L))" "length (bias (layer_K L)) = nat (dk L)"
    "has_shape (kernel (layer_V L)) d_model (nat (dv L))" "length (bias (layer_V L)) = nat (dv L)"
    by (simp_all add: layer_built_def)
  from dense_call_finite [OF assms(1) built(1,2)]
  obtain Q where Q: "dense_call (layer_Q L) X = Inr (Tensor Q)"
    by (elim exE conjE)
  from dense_call_finite [OF assms(1) built(3,4)]
  obtain K where K: "dense_call (layer_K L) X = Inr (Tensor K)"
    by (elim exE conjE)
  from dense_call_finite [OF assms(1) built(5,6)]
  obtain V where V: "dense_call (layer_V L) X = Inr (Tensor V)"
    by (elim exE conjE)
  show ?thesis
    by (simp add: call_def Q K V)
qed

lemma example_built: "has_shape X_example 3 2" "layer_built 2 layer_example"
  by (simp_all add: X_example_def layer_example_def layer_built_def has_shape_def)

text \<open>The literal arrays, evaluated.\<close>

lemma scores_lit: "matmul Q_one (T K_keys) = Inr (Arr 1 2 [[65, 101]])"
  by (simp add: Q_one_def K_keys_def row_vector_def q_i_def k_1_def k_2_def matmul_def cols_def
      upt_conv_Cons)

lemma dots_lit: "dot_prod q_i k_1 = Inr 65" "dot_prod q_i k_2 = Inr 101"
  by (simp_all add: dot_prod_def q_i_def k_1_def k_2_def)

lemma sqrt6_bounds: "2.4494 < sqrt 6" "sqrt 6 < 2.4495"
proof -
  show "2.4494 < sqrt 6"
    by (rule real_less_rsqrt) (simp add: power2_eq_square)
  show "sqrt 6 < 2.4495"
    by (rule real_less_lsqrt) (simp_all add: power2_eq_square)
qed

lemma scaled_lit: "\<bar>65 / sqrt 6 - 26.54\<bar> < 0.005" "\<bar>101 / sqrt 6 - 41.23\<bar> < 0.005"
proof -
  define x y :: real where "x = 65 / sqrt 6" and "y = 101 / sqrt 6"
  have pos: "0 < sqrt 6" by simp
  have "x < 26.545" and "26.535 < x"
    using sqrt6_bounds pos by (simp_all add: x_def divide_less_eq less_divide_eq)
  then have "\<bar>x - 26.54\<bar> < 0.005"
    unfolding abs_less_iff by simp
  then show "\<bar>65 / sqrt 6 - 26.54\<bar> < 0.005"
    by (simp only: x_def)
  have "y < 41.235" and "41.225 < y"
    using sqrt6_bounds pos by (simp_all add: y_def divide_less_eq less_divide_eq)
  then have "\<bar>y - 41.23\<bar> < 0.005"
    unfolding abs_less_iff by simp
  then show "\<bar>101 / sqrt 6 - 41.23\<bar> < 0.005"
    by (simp only: y_def)
qed

lemma max_norm_lit:
  "max_normalize (div_sqrt (Arr 1 2 [[65, 101]]) 6) = Inr [Arr 1 2 [[65 / 101, 1]]]"
  by (simp add: max_normalize_def div_sqrt_def divide_le_cancel max_def)

section \<open>The claims\<close>

text \<open>
  C10. For \<open>Q\<close> of shape \<open>(n_q, d)\<close> and \<open>K\<close> of shape \<open>(n_k, d)\<close>, the product
  \<^verbatim>\<open>Q @ K.T\<close> succeeds with a result of shape \<open>(n_q, n_k)\<close> whose entry \<open>(i, j)\<close> is
  \<^verbatim>\<open>dot_prod\<close> of row \<open>i\<close> of \<open>Q\<close> and row \<open>j\<close> of \<open>K\<close>, that is the sum of the
  elementwise products; and the single-query form \<^verbatim>\<open>q_i[None,:] @ K.T\<close> is row \<open>i\<close> of
  that matrix. So the three forms of the notebook compute the same scores.
\<close>

theorem scores_are_dot_products:
  assumes "has_shape Q n_q d" and "has_shape K n_k d"
  shows "\<exists>S. matmul Q (T K) = Inr (Arr n_q n_k S) \<and> has_shape (Arr n_q n_k S) n_q n_k \<and>
             (\<forall>i<n_q. \<forall>j<n_k.
                dot_prod (rows Q ! i) (rows K ! j) = Inr (S ! i ! j) \<and>
                S ! i ! j = (\<Sum>t<d. rows Q ! i ! t * rows K ! j ! t)) \<and>
             (\<forall>i<n_q. matmul (row_vector (rows Q ! i)) (T K) = Inr (Arr 1 n_k [S ! i]))"
proof -
  from has_shapeD [OF assms(1)] obtain q where q: "Q = Arr n_q d q" "length q = n_q"
    and q_rows: "\<forall>r\<in>set q. length r = d"
    by blast
  from has_shapeD [OF assms(2)] obtain k where k: "K = Arr n_k d k" "length k = n_k"
    and k_rows: "\<forall>r\<in>set k. length r = d"
    by blast
  from matmul_finite [OF assms(1) has_shape_T [OF assms(2)]]
  obtain S where S: "matmul Q (T K) = Inr (Arr n_q n_k S)"
    and shp: "has_shape (Arr n_q n_k S) n_q n_k"
    and ent: "\<forall>i<n_q. \<forall>j<n_k. S ! i ! j = (\<Sum>t<d. rows Q ! i ! t * rows (T K) ! t ! j)"
    by blast
  have sums: "S ! i ! j = (\<Sum>t<d. rows Q ! i ! t * rows K ! j ! t)"
    if "i < n_q" and "j < n_k" for i j
  proof -
    have "S ! i ! j = (\<Sum>t<d. rows Q ! i ! t * rows (T K) ! t ! j)"
      using ent that by blast
    also have "\<dots> = (\<Sum>t<d. rows Q ! i ! t * rows K ! j ! t)"
      by (rule sum.cong) (simp_all add: rows_T [OF assms(2) that(2)])
    finally show ?thesis .
  qed
  have dots: "dot_prod (rows Q ! i) (rows K ! j) = Inr (S ! i ! j)"
    if "i < n_q" and "j < n_k" for i j
  proof -
    have "length (q ! i) = d" and "length (k ! j) = d"
      using q_rows k_rows that q(2) k(2) by simp_all
    then show ?thesis
      using sums [OF that] by (simp add: dot_prod_same_length q(1) k(1))
  qed
  have single: "matmul (row_vector (rows Q ! i)) (T K) = Inr (Arr 1 n_k [S ! i])"
    if "i < n_q" for i
  proof -
    have len: "length (q ! i) = d"
      using q_rows that q(2) by simp
    have "S = map (\<lambda>r. map (\<lambda>c. sum_list (map2 (*) r c)) (cols n_k (cols d k))) q"
      using S by (simp add: q(1) k(1) matmul_Arr)
    then have "S ! i = map (\<lambda>c. sum_list (map2 (*) (q ! i) c)) (cols n_k (cols d k))"
      using that q(2) by simp
    then show ?thesis
      by (simp add: row_vector_def q(1) k(1) len matmul_Arr)
  qed
  from S shp sums dots single show ?thesis
    by blast
qed

theorem scores_are_dot_products_witness:
  "has_shape Q_one 1 6 \<and> has_shape K_keys 2 6 \<and>
   (\<exists>S. matmul Q_one (T K_keys) = Inr (Arr 1 2 S) \<and>
        dot_prod (rows Q_one ! 0) (rows K_keys ! 1) = Inr (S ! 0 ! 1) \<and>
        matmul (row_vector (rows Q_one ! 0)) (T K_keys) = Inr (Arr 1 2 [S ! 0]))"
proof -
  have q: "has_shape Q_one 1 6"
    by (simp add: Q_one_def row_vector_def q_i_def has_shape_def)
  have k: "has_shape K_keys 2 6"
    by (simp add: K_keys_def k_1_def k_2_def has_shape_def)
  from scores_are_dot_products [OF q k] q k show ?thesis
    by fastforce
qed

text \<open>
  C9. The exploratory normalisation, which divides each row of the scaled scores by the row's
  maximum, does not give a probability distribution: on the literal \<open>Q\<close> and \<open>K\<close> the row it
  returns is \<open>[65/101, 1]\<close>, whose entries sum to \<open>166/101\<close>, not to 1.
\<close>

theorem max_normalization_not_a_distribution:
  "matmul Q_one (T K_keys) = Inr (Arr 1 2 [[65, 101]]) \<and>
   max_normalize (div_sqrt (Arr 1 2 [[65, 101]]) 6) = Inr [Arr 1 2 [[65 / 101, 1]]] \<and>
   sum_list [65 / 101, 1 :: real] = 166 / 101 \<and>
   sum_list [65 / 101, 1 :: real] \<noteq> 1"
  using scores_lit max_norm_lit by simp

text \<open>
  C7 as stated fails at its first number: the raw scores of the literal \<open>Q\<close> and \<open>K\<close> are
  65 and 101, not 45 and 85
  (\<open>1\<cdot>1 + 2\<cdot>0 + 3\<cdot>(-1) + 4\<cdot>2 + 5\<cdot>7 + 6\<cdot>4 = 65\<close> and
  \<open>1\<cdot>1 + 2\<cdot>2 + 3\<cdot>3 + 4\<cdot>4 + 5\<cdot>7 + 6\<cdot>6 = 101\<close>).
\<close>

theorem literal_scores_counterexample:
  "matmul Q_one (T K_keys) = Inr (Arr 1 2 [[65, 101]]) \<and>
   matmul Q_one (T K_keys) \<noteq> Inr (Arr 1 2 [[45, 85]]) \<and>
   dot_prod q_i k_1 \<noteq> Inr 45 \<and> dot_prod q_i k_2 \<noteq> Inr 85"
  using scores_lit dots_lit by simp

text \<open>
  C7, with the numbers the code computes. For the literal \<open>Q\<close>, \<open>K\<close> and the scale
  \<open>\<surd>6\<close>: \<^verbatim>\<open>dot_prod\<close> gives 65 and 101, the raw score matrix \<^verbatim>\<open>Q @ K.T\<close> is exactly
  \<open>[[65, 101]]\<close>, and the scaled scores are \<open>[[65/\<surd>6, 101/\<surd>6]]\<close>, which round to
  \<open>[[26.54, 41.23]]\<close>.
\<close>

theorem literal_scenario:
  "dot_prod q_i k_1 = Inr 65 \<and> dot_prod q_i k_2 = Inr 101 \<and>
   matmul Q_one (T K_keys) = Inr (Arr 1 2 [[65, 101]]) \<and>
   div_sqrt (Arr 1 2 [[65, 101]]) 6 = Arr 1 2 [[65 / sqrt 6, 101 / sqrt 6]] \<and>
   \<bar>65 / sqrt 6 - 26.54\<bar> < 0.005 \<and> \<bar>101 / sqrt 6 - 41.23\<bar> < 0.005"
proof -
  have "div_sqrt (Arr 1 2 [[65, 101]]) 6 = Arr 1 2 [[65 / sqrt 6, 101 / sqrt 6]]"
    by (simp add: div_sqrt_def)
  with scores_lit dots_lit scaled_lit show ?thesis
    by simp
qed




text \<open>
  C1 does not hold of the layer: \<^verbatim>\<open>call\<close> never reaches the scores. For every built layer
  and every input of the width it was built for, the projections succeed, the attribute
  lookup \<^verbatim>\<open>K.T\<close> on the tensor \<open>K\<close> raises \<^verbatim>\<open>AttributeError\<close>, and so does \<^verbatim>\<open>call\<close>;
  the square root of the int \<^verbatim>\<open>self.dk\<close> on the line after would raise as well. No
  \<open>S\<close>, \<open>A\<close> or \<open>O\<close> is computed.
\<close>

theorem call_raises_before_scores:
  assumes "has_shape X n d_model" and "layer_built d_model L"
  shows "\<exists>K. dense_call (layer_K L) X = Inr K \<and>
             tensor_T K = Inl AttributeError \<and>
             tf_math_sqrt (dk L) = Inl InvalidArgumentError \<and>
             call L X = Inl AttributeError"
proof -
  from assms(2) have "has_shape (kernel (layer_K L)) d_model (nat (dk L))"
    and "length (bias (layer_K L)) = nat (dk L)"
    by (simp_all add: layer_built_def)
  from dense_call_finite [OF assms(1) this]
  obtain K where "dense_call (layer_K L) X = Inr (Tensor K)"
    by (elim exE conjE)
  moreover have "tensor_T (Tensor K) = Inl AttributeError"
    by simp
  moreover have "tf_math_sqrt (dk L) = Inl InvalidArgumentError"
    by (simp add: tf_math_sqrt_def)
  moreover note call_raises [OF assms]
  ultimately show ?thesis
    by (intro exI [of _ "Tensor K"] conjI)
qed

theorem call_raises_before_scores_witness:
  "has_shape X_example 3 2 \<and> layer_built 2 layer_example \<and>
   call layer_example X_example = Inl AttributeError"
proof -
  from call_raises_before_scores [OF example_built]
  have "call layer_example X_example = Inl AttributeError"
    by (elim exE conjE)
  with example_built show ?thesis
    by (intro conjI)
qed

text \<open>
  C2 does not hold of the layer: \<^verbatim>\<open>call\<close> returns no attention matrix, and no output, on
  any layer and any input; on the example layer and input it raises \<^verbatim>\<open>AttributeError\<close>.
\<close>

theorem call_returns_no_attention_matrix:
  "call L X \<noteq> Inr (AttnOutput A out) \<and> call L X \<noteq> Inr (Output out) \<and>
   call layer_example X_example = Inl AttributeError"
  using call_never_returns call_raises [OF example_built] by simp

text \<open>
  C4 does not hold of the layer: with \<^verbatim>\<open>return_attn\<close> unset and with it set, \<^verbatim>\<open>call\<close>
  raises \<^verbatim>\<open>AttributeError\<close> on every built layer and every input of its width. No \<open>O\<close> is
  returned under either setting.
\<close>

theorem call_raises_under_both_settings:
  assumes "has_shape X n d_model" and "layer_built d_model L"
  shows "call (L\<lparr>return_attn := False\<rparr>) X = Inl AttributeError \<and>
         call (L\<lparr>return_attn := True\<rparr>) X = Inl AttributeError"
proof -
  have "layer_built d_model (L\<lparr>return_attn := b\<rparr>)" for b
    using assms(2) by (simp add: layer_built_def)
  then show ?thesis
    using call_raises [OF assms(1)] by simp
qed

theorem call_raises_under_both_settings_witness:
  "has_shape X_example 3 2 \<and> layer_built 2 layer_example \<and>
   call (layer_example\<lparr>return_attn := False\<rparr>) X_example = Inl AttributeError \<and>
   call (layer_example\<lparr>return_attn := True\<rparr>) X_example = Inl AttributeError"
  using call_raises_under_both_settings [OF example_built] example_built by simp

text \<open>
  C6 holds of the first statement of \<^verbatim>\<open>call\<close> and not of the rest. For an input \<open>X\<close> of
  shape \<open>(n, d_model)\<close> and a layer built for that width, the three projections are the
  affine maps \<open>Q = X\<cdot>Wq + bq\<close>, \<open>K = X\<cdot>Wk + bk\<close>, \<open>V = X\<cdot>Wv + bv\<close>, of shapes \<open>(n, dk)\<close>,
  \<open>(n, dk)\<close>, \<open>(n, dv)\<close>, each from its own parameters; then \<^verbatim>\<open>call\<close> raises
  \<^verbatim>\<open>AttributeError\<close> and returns neither \<open>(A, O)\<close> nor \<open>O\<close>.
\<close>

theorem call_projects_then_raises:
  assumes "has_shape X n d_model" and "layer_built d_model L"
  shows "\<exists>Q K V.
           dense_call (layer_Q L) X = Inr (Tensor Q) \<and>
           dense_call (layer_K L) X = Inr (Tensor K) \<and>
           dense_call (layer_V L) X = Inr (Tensor V) \<and>
           has_shape Q n (nat (dk L)) \<and> has_shape K n (nat (dk L)) \<and>
           has_shape V n (nat (dv L)) \<and>
           (\<forall>i<n. \<forall>j<nat (dk L).
              rows Q ! i ! j =
                (\<Sum>t<d_model. rows X ! i ! t * rows (kernel (layer_Q L)) ! t ! j) +
                bias (layer_Q L) ! j) \<and>
           (\<forall>i<n. \<forall>j<nat (dk L).
              rows K ! i ! j =
                (\<Sum>t<d_model. rows X ! i ! t * rows (kernel (layer_K L)) ! t ! j) +
                bias (layer_K L) ! j) \<and>
           (\<forall>i<n. \<forall>j<nat (dv L).
              rows V ! i ! j =
                (\<Sum>t<d_model. rows X ! i ! t * rows (kernel (layer_V L)) ! t ! j) +
                bias (layer_V L) ! j) \<and>
           call L X = Inl AttributeError"
proof -
  from assms(2) have built:
    "has_shape (kernel (layer_Q L)) d_model (nat (dk L))" "length (bias (layer_Q L)) = nat (dk L)"
    "has_shape (kernel (layer_K L)) d_model (nat (dk L))" "length (bias (layer_K L)) = nat (dk L)"
    "has_shape (kernel (layer_V L)) d_model (nat (dv L))" "length (bias (layer_V L)) = nat (dv L)"
    by (simp_all add: layer_built_def)
  from dense_call_finite [OF assms(1) built(1,2)]
  obtain Q where Q: "dense_call (layer_Q L) X = Inr (Tensor Q)" "has_shape Q n (nat (dk L))"
    "\<forall>i<n. \<forall>j<nat (dk L).
       rows Q ! i ! j =
         (\<Sum>t<d_model. rows X ! i ! t * rows (kernel (layer_Q L)) ! t ! j) + bias (layer_Q L) ! j"
    by (elim exE conjE)
  from dense_call_finite [OF assms(1) built(3,4)]
  obtain K where K: "dense_call (layer_K L) X = Inr (Tensor K)" "has_shape K n (nat (dk L))"
    "\<forall>i<n. \<forall>j<nat (dk L).
       rows K ! i ! j =
         (\<Sum>t<d_model. rows X ! i ! t * rows (kernel (layer_K L)) ! t ! j) + bias (layer_K L) ! j"
    by (elim exE conjE)
  from dense_call_finite [OF assms(1) built(5,6)]
  obtain V where V: "dense_call (layer_V L) X = Inr (Tensor V)" "has_shape V n (nat (dv L))"
    "\<forall>i<n. \<forall>j<nat (dv L).
       rows V ! i ! j =
         (\<Sum>t<d_model. rows X ! i ! t * rows (kernel (layer_V L)) ! t ! j) + bias (layer_V L) ! j"
    by (elim exE conjE)
  from Q K V call_raises [OF assms] show ?thesis
    by (intro exI [of _ Q] exI [of _ K] exI [of _ V]) simp
qed

theorem call_projects_then_raises_witness:
  "has_shape X_example 3 2 \<and> layer_built 2 layer_example \<and>
   dense_call (layer_Q layer_example) X_example = Inr (Tensor (Arr 3 1 [[1], [0], [1]])) \<and>
   dense_call (layer_K layer_example) X_example = Inr (Tensor (Arr 3 1 [[1], [2], [2]])) \<and>
   dense_call (layer_V layer_example) X_example = Inr (Tensor (Arr 3 2 [[1, 0], [0, 1], [1, 1]])) \<and>
   call layer_example X_example = Inl AttributeError"
proof -
  from call_projects_then_raises [OF example_built]
  have "call layer_example X_example = Inl AttributeError"
    by (elim exE conjE)
  moreover have "dense_call (layer_Q layer_example) X_example = Inr (Tensor (Arr 3 1 [[1], [0], [1]]))"
    and "dense_call (layer_K layer_example) X_example = Inr (Tensor (Arr 3 1 [[1], [2], [2]]))"
    and "dense_call (layer_V layer_example) X_example = Inr (Tensor (Arr 3 2 [[1, 0], [0, 1], [1, 1]]))"
    by (simp_all add: dense_call_def bias_add_def matmul_def cols_def layer_example_def
        X_example_def upt_conv_Cons)
  ultimately show ?thesis
    using example_built by (intro conjI)
qed

end
